theory Spec2Isabelle
  imports Complex_Main "HOL-Library.AList"
begin

section \<open>The simulation tick of \<^verbatim>\<open>server/src/sim/tick.ts\<close>\<close>

text \<open>
  The source computes with JavaScript numbers. A finite number is modelled as a
  \<^typ>\<open>real\<close>, with exact arithmetic: rounding and overflow are abstracted away, and every
  numeric field of the input state is taken to hold a finite number. Exact arithmetic itself
  leaves the finite numbers in one place only, \<^verbatim>\<open>calculateWarmth\<close>, which divides and
  takes a logarithm; its result is stored in \<^verbatim>\<open>metrics.warmth\<close> and flows from there
  into \<^verbatim>\<open>blah\<close>. These two fields therefore carry a \<open>number\<close> that can also be an
  infinity or \<^verbatim>\<open>NaN\<close>. The counters \<^verbatim>\<open>tick\<close> and \<^verbatim>\<open>tier\<close> are integers.
\<close>

subsection \<open>Numbers that may leave the finite range\<close>

datatype number = Finite real | PosInfinity | NegInfinity | NaN

fun js_neg :: "number \<Rightarrow> number" where
  "js_neg (Finite a) = Finite (- a)"
| "js_neg PosInfinity = NegInfinity"
| "js_neg NegInfinity = PosInfinity"
| "js_neg NaN = NaN"

fun js_add :: "number \<Rightarrow> number \<Rightarrow> number" where
  "js_add (Finite a) (Finite b) = Finite (a + b)"
| "js_add NaN y = NaN"
| "js_add x NaN = NaN"
| "js_add PosInfinity NegInfinity = NaN"
| "js_add NegInfinity PosInfinity = NaN"
| "js_add PosInfinity y = PosInfinity"
| "js_add x PosInfinity = PosInfinity"
| "js_add NegInfinity y = NegInfinity"
| "js_add x NegInfinity = NegInfinity"

definition js_sub :: "number \<Rightarrow> number \<Rightarrow> number" where
  "js_sub x y = js_add x (js_neg y)"

fun js_sign :: "number \<Rightarrow> real" where
  "js_sign (Finite a) = sgn a"
| "js_sign PosInfinity = 1"
| "js_sign NegInfinity = - 1"
| "js_sign NaN = 0"

definition signed_infinity :: "real \<Rightarrow> number" where
  "signed_infinity s = (if 0 < s then PosInfinity else if s < 0 then NegInfinity else NaN)"

fun js_mul :: "number \<Rightarrow> number \<Rightarrow> number" where
  "js_mul (Finite a) (Finite b) = Finite (a * b)"
| "js_mul NaN y = NaN"
| "js_mul x NaN = NaN"
| "js_mul x y = signed_infinity (js_sign x * js_sign y)"

text \<open>
  Division: a zero divisor is the positive zero here (the only divisors of the source are
  \<^verbatim>\<open>cost + epsilon\<close>, a sum that rounds to \<open>+0\<close> when it vanishes, and the literal 3).
\<close>

fun js_div :: "number \<Rightarrow> number \<Rightarrow> number" where
  "js_div (Finite a) (Finite b) = (if b \<noteq> 0 then Finite (a / b) else signed_infinity a)"
| "js_div NaN y = NaN"
| "js_div x NaN = NaN"
| "js_div (Finite a) y = Finite 0"
| "js_div x (Finite b) = signed_infinity (js_sign x * (if b < 0 then - 1 else 1))"
| "js_div x y = NaN"

text \<open>\<^verbatim>\<open>Math.log\<close>: \<open>-Infinity\<close> at 0 and \<^verbatim>\<open>NaN\<close> below it.\<close>

fun Math_log :: "number \<Rightarrow> number" where
  "Math_log (Finite a) = (if 0 < a then Finite (ln a) else if a = 0 then NegInfinity else NaN)"
| "Math_log PosInfinity = PosInfinity"
| "Math_log NegInfinity = NaN"
| "Math_log NaN = NaN"

text \<open>The comparison \<^verbatim>\<open>x > c\<close> against a finite \<open>c\<close>; false for \<^verbatim>\<open>NaN\<close>.\<close>

fun js_gt :: "number \<Rightarrow> real \<Rightarrow> bool" where
  "js_gt (Finite a) c = (c < a)"
| "js_gt PosInfinity c = True"
| "js_gt NegInfinity c = False"
| "js_gt NaN c = False"

subsection \<open>Template literals\<close>

text \<open>
  The decimal text of an integer, as \<^verbatim>\<open>`${state.tick}`\<close> produces it for a counter
  of fewer than 22 digits.
\<close>

definition digit :: "nat \<Rightarrow> char" where
  "digit d = ''0123456789'' ! d"

fun decimal :: "nat \<Rightarrow> string \<Rightarrow> string" where
  "decimal n acc = (if n < 10 then digit n # acc else decimal (n div 10) (digit (n mod 10) # acc))"

definition toString :: "int \<Rightarrow> string" where
  "toString i = (if i < 0 then CHR ''-'' # decimal (nat (- i)) [] else decimal (nat i) [])"

subsection \<open>Data model\<close>

record Metrics =
  warmth :: number
  coherence :: real
  stability :: real

record OrganelleState =
  capacity :: real
  efficiency :: real
  utilization :: real

record PlayerAllocation =
  organelle :: string
  utilization :: real

record PlayerAction =
  playerId :: string
  allocations :: "PlayerAllocation list option"
  harmony :: "real option"

record ResourceFlows =
  energy :: real
  nutrients :: real

datatype SimulationEventType = anomaly | festival | repair

record Impact =
  energy :: "real option"
  nutrients :: "real option"
  coherence :: "real option"
  stability :: "real option"

record SimulationEvent =
  id :: string
  type :: SimulationEventType
  impact :: Impact

record Resources =
  energy :: real
  nutrients :: real

text \<open>
  \<^verbatim>\<open>organelles: Record<string, OrganelleState>\<close> is an association list of the object's
  own properties, in the order \<^verbatim>\<open>Object.values\<close> enumerates them; \<open>map_of\<close> is the
  lookup by key. Names that a JavaScript object inherits from its prototype are not keys.
\<close>

record SimulationState =
  tick :: int
  tier :: int
  metrics :: Metrics
  resources :: Resources
  organelles :: "(string \<times> OrganelleState) list"
  strain :: real
  blah :: number
  pendingActions :: "PlayerAction list"
  activeEvents :: "SimulationEvent list"

subsection \<open>Helpers of the tick\<close>

definition MIN_UTILIZATION :: real where
  "MIN_UTILIZATION = 0"

definition MAX_UTILIZATION :: real where
  "MAX_UTILIZATION = 1"

definition clamp :: "real \<Rightarrow> real \<Rightarrow> real \<Rightarrow> real" where
  "clamp value lo hi = min hi (max lo value)"

definition collectPlayerActions :: "SimulationState \<Rightarrow> PlayerAction list" where
  "collectPlayerActions state = pendingActions state"

text \<open>
  The body of the inner loop of \<^verbatim>\<open>applyAllocations\<close>: an allocation whose organelle is
  not a key of \<^verbatim>\<open>state.organelles\<close> is skipped, otherwise the utilization of that
  organelle is overwritten in place.
\<close>

definition applyAllocation :: "SimulationState \<Rightarrow> PlayerAllocation \<Rightarrow> SimulationState" where
  "applyAllocation state allocation =
     (case map_of (organelles state) (organelle allocation) of
        None \<Rightarrow> state
      | Some org \<Rightarrow>
          state\<lparr>organelles :=
            AList.update (organelle allocation)
              (org\<lparr>OrganelleState.utilization :=
                 clamp (OrganelleState.utilization org + PlayerAllocation.utilization allocation)
                   MIN_UTILIZATION MAX_UTILIZATION\<rparr>)
              (organelles state)\<rparr>)"

definition applyAllocations :: "SimulationState \<Rightarrow> PlayerAction list \<Rightarrow> SimulationState" where
  "applyAllocations state actions =
     foldl (\<lambda>st action.
         foldl applyAllocation st (case allocations action of None \<Rightarrow> [] | Some as \<Rightarrow> as))
       state actions"

text \<open>
  The loop of \<^verbatim>\<open>computeResourceFlows\<close>, with its two accumulators. A local variable
  whose name is also a field name carries a prime.
\<close>

fun flowsLoop :: "OrganelleState list \<Rightarrow> real \<Rightarrow> real \<Rightarrow> ResourceFlows" where
  "flowsLoop [] energy' nutrients' =
     \<lparr>ResourceFlows.energy = energy', ResourceFlows.nutrients = nutrients'\<rparr>"
| "flowsLoop (org # rest) energy' nutrients' =
     (let output = capacity org * efficiency org * OrganelleState.utilization org
      in flowsLoop rest (energy' + output) (nutrients' - output * 0.6))"

definition computeResourceFlows :: "SimulationState \<Rightarrow> ResourceFlows" where
  "computeResourceFlows state = flowsLoop (map snd (organelles state)) 0 0"

definition computeStrain :: "SimulationState \<Rightarrow> ResourceFlows \<Rightarrow> real" where
  "computeStrain state flows =
     (let projectedNutrients = Resources.nutrients (resources state) + ResourceFlows.nutrients flows;
          nutrientDebt = max 0 (- projectedNutrients);
          utilizationLoad =
            foldl (\<lambda>sum org. sum + OrganelleState.utilization org) 0 (map snd (organelles state))
      in strain state * 0.6 + nutrientDebt * 0.4 + utilizationLoad * 0.2)"

definition computeGainCost :: "ResourceFlows \<Rightarrow> real \<Rightarrow> real \<times> real" where
  "computeGainCost flows strain' =
     (let gain = max 0 (ResourceFlows.energy flows);
          cost = max 0 (- ResourceFlows.nutrients flows) + strain' * 0.5
      in (gain, cost))"

text \<open>\<^verbatim>\<open>calculateWarmth\<close>, imported from \<^verbatim>\<open>./metrics\<close>.\<close>

definition calculateWarmth :: "real \<Rightarrow> real \<Rightarrow> number" where
  "calculateWarmth gain cost =
     (let epsilon = 0.0001; k = 0.1
      in js_sub (Math_log (js_div (Finite (gain + epsilon)) (Finite (cost + epsilon)))) (Finite k))"

definition computeCoherence :: "PlayerAction list \<Rightarrow> SimulationEvent list \<Rightarrow> real" where
  "computeCoherence actions events =
     (let harmonyValues = map (\<lambda>action. case harmony action of None \<Rightarrow> 0 | Some h \<Rightarrow> h) actions;
          averageHarmony =
            (if length harmonyValues \<noteq> 0
             then foldl (\<lambda>sum value. sum + value) 0 harmonyValues / real (length harmonyValues)
             else 0);
          eventBonus =
            foldl (\<lambda>sum event.
                sum + (case Impact.coherence (impact event) of None \<Rightarrow> 0 | Some c \<Rightarrow> c))
              0 events
      in clamp (averageHarmony + eventBonus) 0 1)"

definition updateStability :: "SimulationState \<Rightarrow> real \<Rightarrow> real \<Rightarrow> real" where
  "updateStability state strain' coherence' =
     (let base = Metrics.stability (metrics state);
          next = base + coherence' * 0.4 - strain' * 0.3
      in clamp next 0 1)"

definition updateBlah :: "Metrics \<Rightarrow> number \<Rightarrow> number" where
  "updateBlah metrics' current =
     (let target =
            js_div
              (js_add (js_add (warmth metrics') (Finite (Metrics.stability metrics')))
                 (Finite (Metrics.coherence metrics')))
              (Finite 3)
      in js_add current (js_mul (js_sub target current) (Finite 0.2)))"

definition maybeSpawnEvents :: "SimulationState \<Rightarrow> SimulationEvent list" where
  "maybeSpawnEvents state =
     (if strain state > 1.5
      then [\<lparr>id = ''anomaly-'' @ toString (tick state), type = anomaly,
             impact = \<lparr>Impact.energy = Some (- 2), Impact.nutrients = None,
                       Impact.coherence = None, Impact.stability = Some (- 0.2)\<rparr>\<rparr>]
      else []) @
     (if Metrics.coherence (metrics state) > 0.7
      then [\<lparr>id = ''festival-'' @ toString (tick state), type = festival,
             impact = \<lparr>Impact.energy = Some 1, Impact.nutrients = None,
                       Impact.coherence = Some 0.1, Impact.stability = None\<rparr>\<rparr>]
      else []) @
     (if Resources.nutrients (resources state) < 1
      then [\<lparr>id = ''repair-'' @ toString (tick state), type = repair,
             impact = \<lparr>Impact.energy = None, Impact.nutrients = Some 2,
                       Impact.coherence = None, Impact.stability = Some 0.1\<rparr>\<rparr>]
      else [])"

text \<open>
  \<^verbatim>\<open>if (event.impact.energy) ...\<close>: the branch is taken when the field is present and
  not zero.
\<close>

fun whenTruthy :: "real option \<Rightarrow> (real \<Rightarrow> SimulationState \<Rightarrow> SimulationState) \<Rightarrow>
    SimulationState \<Rightarrow> SimulationState" where
  "whenTruthy None f state = state"
| "whenTruthy (Some v) f state = (if v \<noteq> 0 then f v state else state)"

text \<open>The body of the loop of \<^verbatim>\<open>applyEvents\<close>: four conditional writes, in order.\<close>

definition applyEvent :: "SimulationState \<Rightarrow> SimulationEvent \<Rightarrow> SimulationState" where
  "applyEvent state event =
     (let s1 = whenTruthy (Impact.energy (impact event))
                 (\<lambda>v st. st\<lparr>resources := (resources st)
                    \<lparr>Resources.energy := Resources.energy (resources st) + v\<rparr>\<rparr>) state;
          s2 = whenTruthy (Impact.nutrients (impact event))
                 (\<lambda>v st. st\<lparr>resources := (resources st)
                    \<lparr>Resources.nutrients := Resources.nutrients (resources st) + v\<rparr>\<rparr>) s1;
          s3 = whenTruthy (Impact.coherence (impact event))
                 (\<lambda>v st. st\<lparr>metrics := (metrics st)
                    \<lparr>Metrics.coherence := clamp (Metrics.coherence (metrics st) + v) 0 1\<rparr>\<rparr>) s2
      in whenTruthy (Impact.stability (impact event))
           (\<lambda>v st. st\<lparr>metrics := (metrics st)
              \<lparr>Metrics.stability := clamp (Metrics.stability (metrics st) + v) 0 1\<rparr>\<rparr>) s3)"

definition applyEvents :: "SimulationState \<Rightarrow> SimulationEvent list \<Rightarrow> SimulationState" where
  "applyEvents state events = (foldl applyEvent state events)\<lparr>activeEvents := events\<rparr>"

definition maybeProgressTier :: "SimulationState \<Rightarrow> SimulationState" where
  "maybeProgressTier state =
     (if Metrics.stability (metrics state) > 0.75 \<and> js_gt (warmth (metrics state)) 0.5
      then state\<lparr>tier := tier state + 1\<rparr>
      else state)"

definition consumeFlows :: "SimulationState \<Rightarrow> ResourceFlows \<Rightarrow> SimulationState" where
  "consumeFlows state flows =
     (let s1 = state\<lparr>resources := (resources state)
                 \<lparr>Resources.energy := Resources.energy (resources state) + ResourceFlows.energy flows\<rparr>\<rparr>;
          s2 = s1\<lparr>resources := (resources s1)
                 \<lparr>Resources.nutrients :=
                    Resources.nutrients (resources s1) + ResourceFlows.nutrients flows\<rparr>\<rparr>;
          s3 = s2\<lparr>resources := (resources s2)
                 \<lparr>Resources.energy := max 0 (Resources.energy (resources s2))\<rparr>\<rparr>
      in s3\<lparr>resources := (resources s3)
            \<lparr>Resources.nutrients := max 0 (Resources.nutrients (resources s3))\<rparr>\<rparr>)"

subsection \<open>The tick\<close>

text \<open>
  \<^verbatim>\<open>tickSimulation\<close> is split at its call of \<^verbatim>\<open>applyEvents\<close>, so that the state and
  the events at that point have a name: \<open>tickMetrics\<close> is the function's body up to the
  update of \<^verbatim>\<open>blah\<close>, and returns the state together with the local \<^verbatim>\<open>events\<close>.
  The optional hooks \<^verbatim>\<open>persist\<close> and \<^verbatim>\<open>broadcast\<close> are external callbacks that are
  handed the final state; they are not part of the model.
\<close>

definition tickMetrics :: "SimulationState \<Rightarrow> SimulationState \<times> SimulationEvent list" where
  "tickMetrics state0 =
     (let actions = collectPlayerActions state0;
          state1 = applyAllocations state0 actions;
          flows = computeResourceFlows state1;
          strain' = computeStrain state1 flows;
          state2 = consumeFlows state1 flows;
          (gain, cost) = computeGainCost flows strain';
          state3 = state2\<lparr>metrics := (metrics state2)\<lparr>warmth := calculateWarmth gain cost\<rparr>\<rparr>;
          events = maybeSpawnEvents state3;
          state4 = state3\<lparr>metrics := (metrics state3)
                     \<lparr>Metrics.coherence := computeCoherence actions events\<rparr>\<rparr>;
          state5 = state4\<lparr>metrics := (metrics state4)
                     \<lparr>Metrics.stability :=
                        updateStability state4 strain' (Metrics.coherence (metrics state4))\<rparr>\<rparr>;
          state6 = state5\<lparr>strain := strain'\<rparr>;
          state7 = state6\<lparr>blah := updateBlah (metrics state6) (blah state6)\<rparr>
      in (state7, events))"

definition tickSimulation :: "SimulationState \<Rightarrow> SimulationState" where
  "tickSimulation state0 =
     (let (state7, events) = tickMetrics state0;
          state8 = applyEvents state7 events;
          state9 = maybeProgressTier state8;
          state10 = state9\<lparr>pendingActions := []\<rparr>
      in state10\<lparr>tick := tick state10 + 1\<rparr>)"

subsection \<open>Quantities named by the specification\<close>

text \<open>
  The specification describes some results in its own words. These definitions follow
  those words; the theorems below compare them with what the code computes.
\<close>

definition organelleOutput :: "OrganelleState \<Rightarrow> real" where
  "organelleOutput org = capacity org * efficiency org * OrganelleState.utilization org"

definition nutrientDebt :: "SimulationState \<Rightarrow> ResourceFlows \<Rightarrow> real" where
  "nutrientDebt state flows =
     max 0 (- (Resources.nutrients (resources state) + ResourceFlows.nutrients flows))"

definition utilizationLoad :: "SimulationState \<Rightarrow> real" where
  "utilizationLoad state = (\<Sum>org\<leftarrow>map snd (organelles state). OrganelleState.utilization org)"

definition averageHarmony :: "PlayerAction list \<Rightarrow> real" where
  "averageHarmony actions =
     (if actions = [] then 0
      else (\<Sum>action\<leftarrow>actions. case harmony action of None \<Rightarrow> 0 | Some h \<Rightarrow> h) /
           real (length actions))"

definition eventBonus :: "SimulationEvent list \<Rightarrow> real" where
  "eventBonus events =
     (\<Sum>event\<leftarrow>events. case Impact.coherence (impact event) of None \<Rightarrow> 0 | Some c \<Rightarrow> c)"

subsection \<open>Example states\<close>

text \<open>A world without organelles whose stored strain is 2 and whose energy is spent.\<close>

definition strainedState :: SimulationState where
  "strainedState =
     \<lparr>tick = 0, tier = 0,
      metrics = \<lparr>warmth = Finite 0, Metrics.coherence = 0, Metrics.stability = 0.5\<rparr>,
      resources = \<lparr>Resources.energy = 0, Resources.nutrients = 5\<rparr>,
      organelles = [], strain = 2, blah = Finite 0,
      pendingActions = [], activeEvents = []\<rparr>"

text \<open>
  One organelle at half utilization, a festival pending (coherence 0.8), and one player who
  adds 0.7 to the organelle and reports a harmony of 0.5.
\<close>

definition workingState :: SimulationState where
  "workingState =
     \<lparr>tick = 41, tier = 1,
      metrics = \<lparr>warmth = Finite 0, Metrics.coherence = 0.8, Metrics.stability = 0.5\<rparr>,
      resources = \<lparr>Resources.energy = 3, Resources.nutrients = 100\<rparr>,
      organelles =
        [(''mitochondria'',
          \<lparr>capacity = 10, efficiency = 1, OrganelleState.utilization = 0.5\<rparr>)],
      strain = 0, blah = Finite 0,
      pendingActions =
        [\<lparr>playerId = ''p1'',
          allocations =
            Some [\<lparr>organelle = ''mitochondria'', PlayerAllocation.utilization = 0.7\<rparr>],
          harmony = Some 0.5\<rparr>],
      activeEvents = []\<rparr>"

text \<open>Two organelles, the first of them idle.\<close>

definition idleOrganelle :: OrganelleState where
  "idleOrganelle = \<lparr>capacity = 10, efficiency = 1, OrganelleState.utilization = 0\<rparr>"

definition idleState :: SimulationState where
  "idleState =
     \<lparr>tick = 0, tier = 0,
      metrics = \<lparr>warmth = Finite 0, Metrics.coherence = 0, Metrics.stability = 0.5\<rparr>,
      resources = \<lparr>Resources.energy = 0, Resources.nutrients = 5\<rparr>,
      organelles =
        [(''mitochondria'', idleOrganelle),
         (''ribosome'', \<lparr>capacity = 4, efficiency = 0.5, OrganelleState.utilization = 0.2\<rparr>)],
      strain = 0, blah = Finite 0,
      pendingActions = [], activeEvents = []\<rparr>"

text \<open>The idle world with two players, one of whom reports a harmony of 0.4.\<close>

definition harmonyState :: SimulationState where
  "harmonyState =
     idleState\<lparr>pendingActions :=
       [\<lparr>playerId = ''p1'', allocations = None, harmony = Some 0.4\<rparr>,
        \<lparr>playerId = ''p2'', allocations = None, harmony = None\<rparr>]\<rparr>"

text \<open>
  A state whose tick raises the tier. Its stored strain is negative; lemma \<open>tier_stalls\<close>
  below shows that the tier cannot move otherwise.
\<close>

definition progressState :: SimulationState where
  "progressState =
     \<lparr>tick = 9, tier = 3,
      metrics = \<lparr>warmth = Finite 0, Metrics.coherence = 0, Metrics.stability = 0.5\<rparr>,
      resources = \<lparr>Resources.energy = 0, Resources.nutrients = 100\<rparr>,
      organelles =
        [(''mitochondria'',
          \<lparr>capacity = 1, efficiency = 1, OrganelleState.utilization = 1\<rparr>)],
      strain = - 2, blah = Finite 0,
      pendingActions = [], activeEvents = []\<rparr>"

text \<open>The action of a player who submits a single allocation.\<close>

definition allocating :: "string \<Rightarrow> string \<Rightarrow> real \<Rightarrow> PlayerAction" where
  "allocating player name delta =
     \<lparr>playerId = player,
      allocations = Some [\<lparr>organelle = name, PlayerAllocation.utilization = delta\<rparr>],
      harmony = None\<rparr>"

section \<open>Basic facts\<close>

lemma clamp_unit: "0 \<le> clamp v 0 1" "clamp v 0 1 \<le> 1"
  by (simp_all add: clamp_def)

lemma foldl_add_sum_list: "foldl (\<lambda>sum value. sum + value) a xs = a + sum_list (xs :: real list)"
  by (induction xs arbitrary: a) simp_all

lemma foldl_add_map: "foldl (\<lambda>sum x. sum + f x) a xs = a + (\<Sum>x\<leftarrow>xs. (f x :: real))"
  by (induction xs arbitrary: a) simp_all

subsection \<open>Allocations touch the organelles only\<close>

lemma applyAllocation_frame:
  "applyAllocation s a = s\<lparr>organelles := organelles (applyAllocation s a)\<rparr>"
  by (simp add: applyAllocation_def split: option.splits)

lemma foldl_applyAllocation_frame:
  "foldl applyAllocation s as = s\<lparr>organelles := organelles (foldl applyAllocation s as)\<rparr>"
proof (induction as arbitrary: s)
  case Nil
  show ?case by simp
next
  case (Cons a as)
  have "foldl applyAllocation (applyAllocation s a) as =
        (applyAllocation s a)
          \<lparr>organelles := organelles (foldl applyAllocation (applyAllocation s a) as)\<rparr>"
    by (rule Cons.IH)
  also have "\<dots> = s\<lparr>organelles := organelles (foldl applyAllocation (applyAllocation s a) as)\<rparr>"
    by (subst applyAllocation_frame) simp
  finally show ?case by simp
qed

lemma applyAllocations_frame:
  "applyAllocations s acts = s\<lparr>organelles := organelles (applyAllocations s acts)\<rparr>"
proof (induction acts arbitrary: s)
  case Nil
  show ?case by (simp add: applyAllocations_def)
next
  case (Cons a acts)
  let ?s1 = "foldl applyAllocation s (case allocations a of None \<Rightarrow> [] | Some as \<Rightarrow> as)"
  have "applyAllocations s (a # acts) = applyAllocations ?s1 acts"
    by (simp add: applyAllocations_def)
  also have "\<dots> = ?s1\<lparr>organelles := organelles (applyAllocations ?s1 acts)\<rparr>"
    by (rule Cons.IH)
  also have "\<dots> = s\<lparr>organelles := organelles (applyAllocations ?s1 acts)\<rparr>"
    by (subst foldl_applyAllocation_frame) simp
  finally show ?case by (simp add: applyAllocations_def)
qed

lemma applyAllocations_fields:
  "strain (applyAllocations s acts) = strain s"
  "resources (applyAllocations s acts) = resources s"
  "metrics (applyAllocations s acts) = metrics s"
  "tick (applyAllocations s acts) = tick s"
  "tier (applyAllocations s acts) = tier s"
  "blah (applyAllocations s acts) = blah s"
  by (subst applyAllocations_frame, simp)+

subsection \<open>What one event writes\<close>

lemma whenTruthy_cases:
  "whenTruthy x f s = (case x of None \<Rightarrow> s | Some v \<Rightarrow> if v \<noteq> 0 then f v s else s)"
  by (cases x) simp_all

lemma applyEvent_coherence:
  "Metrics.coherence (metrics (applyEvent s e)) =
     (case Impact.coherence (impact e) of
        None \<Rightarrow> Metrics.coherence (metrics s)
      | Some v \<Rightarrow> if v \<noteq> 0 then clamp (Metrics.coherence (metrics s) + v) 0 1
                  else Metrics.coherence (metrics s))"
  by (simp add: applyEvent_def Let_def whenTruthy_cases split: option.splits)

lemma applyEvent_stability:
  "Metrics.stability (metrics (applyEvent s e)) =
     (case Impact.stability (impact e) of
        None \<Rightarrow> Metrics.stability (metrics s)
      | Some v \<Rightarrow> if v \<noteq> 0 then clamp (Metrics.stability (metrics s) + v) 0 1
                  else Metrics.stability (metrics s))"
  by (simp add: applyEvent_def Let_def whenTruthy_cases split: option.splits)

lemma applyEvent_fields:
  "organelles (applyEvent s e) = organelles s"
  "strain (applyEvent s e) = strain s"
  "tier (applyEvent s e) = tier s"
  "tick (applyEvent s e) = tick s"
  "warmth (metrics (applyEvent s e)) = warmth (metrics s)"
  by (simp_all add: applyEvent_def Let_def whenTruthy_cases split: option.splits)

lemma foldl_applyEvent_fields:
  "organelles (foldl applyEvent s es) = organelles s"
  "strain (foldl applyEvent s es) = strain s"
  "tier (foldl applyEvent s es) = tier s"
  "tick (foldl applyEvent s es) = tick s"
  "warmth (metrics (foldl applyEvent s es)) = warmth (metrics s)"
  by (induction es arbitrary: s) (simp_all add: applyEvent_fields)

lemma applyEvent_energy:
  "Resources.energy (resources (applyEvent s e)) =
     (case Impact.energy (impact e) of
        None \<Rightarrow> Resources.energy (resources s)
      | Some v \<Rightarrow> Resources.energy (resources s) + v)"
  by (simp add: applyEvent_def Let_def whenTruthy_cases split: option.splits)

lemma applyEvent_nutrients:
  "Resources.nutrients (resources (applyEvent s e)) =
     (case Impact.nutrients (impact e) of
        None \<Rightarrow> Resources.nutrients (resources s)
      | Some v \<Rightarrow> Resources.nutrients (resources s) + v)"
  by (simp add: applyEvent_def Let_def whenTruthy_cases split: option.splits)

lemma applyEvents_fields:
  "tick (applyEvents st es) = tick st"
  "tier (applyEvents st es) = tier st"
  "organelles (applyEvents st es) = organelles st"
  "strain (applyEvents st es) = strain st"
  "metrics (applyEvents st es) = metrics (foldl applyEvent st es)"
  "resources (applyEvents st es) = resources (foldl applyEvent st es)"
  "activeEvents (applyEvents st es) = es"
  by (simp_all add: applyEvents_def foldl_applyEvent_fields)

lemma maybeProgressTier_fields:
  "tick (maybeProgressTier st) = tick st"
  "metrics (maybeProgressTier st) = metrics st"
  "resources (maybeProgressTier st) = resources st"
  "organelles (maybeProgressTier st) = organelles st"
  "strain (maybeProgressTier st) = strain st"
  "activeEvents (maybeProgressTier st) = activeEvents st"
  by (simp_all add: maybeProgressTier_def)

subsection \<open>The events of a tick\<close>

lemma maybeSpawnEvents_types:
  "map type (maybeSpawnEvents st) =
     (if 1.5 < strain st then [anomaly] else []) @
     (if 0.7 < Metrics.coherence (metrics st) then [festival] else []) @
     (if Resources.nutrients (resources st) < 1 then [repair] else [])"
  by (simp add: maybeSpawnEvents_def)

lemma tickMetrics_events:
  "snd (tickMetrics s) =
     maybeSpawnEvents
       (s\<lparr>resources :=
            resources (consumeFlows (applyAllocations s (pendingActions s))
              (computeResourceFlows (applyAllocations s (pendingActions s))))\<rparr>)"
  apply (simp add: tickMetrics_def Let_def collectPlayerActions_def split: prod.splits)
  apply (simp add: maybeSpawnEvents_def consumeFlows_def Let_def applyAllocations_fields)
  done

subsection \<open>The fields of the state after a tick\<close>

lemma tickMetrics_fields:
  "organelles (fst (tickMetrics s)) = organelles (applyAllocations s (pendingActions s))"
  "strain (fst (tickMetrics s)) =
     computeStrain (applyAllocations s (pendingActions s))
       (computeResourceFlows (applyAllocations s (pendingActions s)))"
  "resources (fst (tickMetrics s)) =
     resources (consumeFlows (applyAllocations s (pendingActions s))
       (computeResourceFlows (applyAllocations s (pendingActions s))))"
  "tier (fst (tickMetrics s)) = tier s"
  "tick (fst (tickMetrics s)) = tick s"
  by (simp_all add: tickMetrics_def Let_def collectPlayerActions_def consumeFlows_def
      applyAllocations_fields split: prod.splits)

lemma tickMetrics_coherence:
  "Metrics.coherence (metrics (fst (tickMetrics s))) =
     computeCoherence (pendingActions s) (snd (tickMetrics s))"
  by (simp add: tickMetrics_def Let_def collectPlayerActions_def split: prod.splits)

lemma tickMetrics_stability:
  "Metrics.stability (metrics (fst (tickMetrics s))) =
     clamp (Metrics.stability (metrics s)
            + Metrics.coherence (metrics (fst (tickMetrics s))) * 0.4
            - strain (fst (tickMetrics s)) * 0.3) 0 1"
  by (simp add: tickMetrics_def Let_def collectPlayerActions_def updateStability_def
      consumeFlows_def applyAllocations_fields split: prod.splits)

lemma tickMetrics_warmth:
  "warmth (metrics (fst (tickMetrics s))) =
     calculateWarmth
       (fst (computeGainCost (computeResourceFlows (applyAllocations s (pendingActions s)))
               (strain (fst (tickMetrics s)))))
       (snd (computeGainCost (computeResourceFlows (applyAllocations s (pendingActions s)))
               (strain (fst (tickMetrics s)))))"
  by (simp add: tickMetrics_def Let_def collectPlayerActions_def split: prod.splits)

lemma tickSimulation_eq:
  "tickSimulation s =
     (maybeProgressTier (applyEvents (fst (tickMetrics s)) (snd (tickMetrics s))))
       \<lparr>pendingActions := [], tick := tick s + 1\<rparr>"
  by (simp add: tickSimulation_def Let_def case_prod_beta maybeProgressTier_fields
      applyEvents_fields tickMetrics_fields)

lemma tick_fields:
  "tick (tickSimulation s) = tick s + 1"
  "pendingActions (tickSimulation s) = []"
  "organelles (tickSimulation s) = organelles (applyAllocations s (pendingActions s))"
  "strain (tickSimulation s) = strain (fst (tickMetrics s))"
  "metrics (tickSimulation s) =
     metrics (foldl applyEvent (fst (tickMetrics s)) (snd (tickMetrics s)))"
  "resources (tickSimulation s) =
     resources (foldl applyEvent (fst (tickMetrics s)) (snd (tickMetrics s)))"
  "activeEvents (tickSimulation s) = snd (tickMetrics s)"
  by (simp_all add: tickSimulation_eq maybeProgressTier_fields applyEvents_fields
      tickMetrics_fields)

subsection \<open>The tick of \<open>strainedState\<close>\<close>

lemma strainedState_events:
  "snd (tickMetrics strainedState) = maybeSpawnEvents strainedState"
  unfolding tickMetrics_events
  by (simp add: strainedState_def applyAllocations_def computeResourceFlows_def
      consumeFlows_def Let_def)

lemma strainedState_types:
  "map type (activeEvents (tickSimulation strainedState)) = [anomaly]"
  unfolding tick_fields strainedState_events maybeSpawnEvents_types
  by (simp add: strainedState_def)

lemma strainedState_strain:
  "computeStrain (applyAllocations strainedState (collectPlayerActions strainedState))
     (computeResourceFlows
        (applyAllocations strainedState (collectPlayerActions strainedState))) = 1.2"
  "strain (tickSimulation strainedState) = 1.2"
  by (simp_all add: tick_fields tickMetrics_fields collectPlayerActions_def)
     (simp_all add: strainedState_def applyAllocations_def computeResourceFlows_def
       computeStrain_def Let_def)

lemma strainedState_consumed:
  "Resources.energy (resources (fst (tickMetrics strainedState))) = 0"
  by (simp add: tickMetrics_fields)
     (simp add: strainedState_def applyAllocations_def computeResourceFlows_def
       consumeFlows_def Let_def)

lemma strainedState_energy:
  "Resources.energy (resources (tickSimulation strainedState)) = - 2"
proof -
  have "Resources.energy (resources (tickSimulation strainedState)) =
        Resources.energy (resources (fst (tickMetrics strainedState))) - 2"
    unfolding tick_fields strainedState_events
    by (simp add: maybeSpawnEvents_def strainedState_def applyEvent_energy)
  then show ?thesis by (simp add: strainedState_consumed)
qed

subsection \<open>Utilization stays in the unit interval\<close>

lemma set_update_subset: "set (AList.update k v al) \<subseteq> insert (k, v) (set al)"
  by (induction al) auto

lemma applyAllocation_bounded:
  assumes "\<forall>org \<in> set (map snd (organelles s)).
             0 \<le> OrganelleState.utilization org \<and> OrganelleState.utilization org \<le> 1"
  shows "\<forall>org \<in> set (map snd (organelles (applyAllocation s a))).
             0 \<le> OrganelleState.utilization org \<and> OrganelleState.utilization org \<le> 1"
proof (cases "map_of (organelles s) (organelle a)")
  case None
  then show ?thesis using assms by (simp add: applyAllocation_def)
next
  case (Some org0)
  let ?new = "org0\<lparr>OrganelleState.utilization :=
     clamp (OrganelleState.utilization org0 + PlayerAllocation.utilization a)
       MIN_UTILIZATION MAX_UTILIZATION\<rparr>"
  have new: "0 \<le> OrganelleState.utilization ?new \<and> OrganelleState.utilization ?new \<le> 1"
    by (simp add: MIN_UTILIZATION_def MAX_UTILIZATION_def clamp_unit)
  have "set (organelles (applyAllocation s a)) \<subseteq>
        insert (organelle a, ?new) (set (organelles s))"
    using Some by (simp add: applyAllocation_def set_update_subset)
  then show ?thesis using assms new by fastforce
qed

lemma foldl_applyAllocation_bounded:
  "\<forall>org \<in> set (map snd (organelles s)).
      0 \<le> OrganelleState.utilization org \<and> OrganelleState.utilization org \<le> 1 \<Longrightarrow>
   \<forall>org \<in> set (map snd (organelles (foldl applyAllocation s as))).
      0 \<le> OrganelleState.utilization org \<and> OrganelleState.utilization org \<le> 1"
proof (induction as arbitrary: s)
  case Nil
  then show ?case by simp
next
  case (Cons a as)
  show ?case
    unfolding foldl_Cons
    by (rule Cons.IH) (rule applyAllocation_bounded [OF Cons.prems])
qed

lemma applyAllocations_bounded:
  "\<forall>org \<in> set (map snd (organelles s)).
      0 \<le> OrganelleState.utilization org \<and> OrganelleState.utilization org \<le> 1 \<Longrightarrow>
   \<forall>org \<in> set (map snd (organelles (applyAllocations s acts))).
      0 \<le> OrganelleState.utilization org \<and> OrganelleState.utilization org \<le> 1"
proof (induction acts arbitrary: s)
  case Nil
  then show ?case by (simp add: applyAllocations_def)
next
  case (Cons a acts)
  let ?s1 = "foldl applyAllocation s (case allocations a of None \<Rightarrow> [] | Some as \<Rightarrow> as)"
  have step: "applyAllocations s (a # acts) = applyAllocations ?s1 acts"
    by (simp add: applyAllocations_def)
  show ?case
    unfolding step
    by (rule Cons.IH) (rule foldl_applyAllocation_bounded [OF Cons.prems])
qed

subsection \<open>Coherence and stability stay in the unit interval\<close>

lemma foldl_applyEvent_coherence_unit:
  "0 \<le> Metrics.coherence (metrics st) \<and> Metrics.coherence (metrics st) \<le> 1 \<Longrightarrow>
   0 \<le> Metrics.coherence (metrics (foldl applyEvent st es)) \<and>
   Metrics.coherence (metrics (foldl applyEvent st es)) \<le> 1"
proof (induction es arbitrary: st)
  case Nil
  then show ?case by simp
next
  case (Cons e es)
  have "0 \<le> Metrics.coherence (metrics (applyEvent st e)) \<and>
        Metrics.coherence (metrics (applyEvent st e)) \<le> 1"
    using Cons.prems by (simp add: applyEvent_coherence clamp_unit split: option.splits)
  then show ?case unfolding foldl_Cons by (rule Cons.IH)
qed

lemma foldl_applyEvent_stability_unit:
  "0 \<le> Metrics.stability (metrics st) \<and> Metrics.stability (metrics st) \<le> 1 \<Longrightarrow>
   0 \<le> Metrics.stability (metrics (foldl applyEvent st es)) \<and>
   Metrics.stability (metrics (foldl applyEvent st es)) \<le> 1"
proof (induction es arbitrary: st)
  case Nil
  then show ?case by simp
next
  case (Cons e es)
  have "0 \<le> Metrics.stability (metrics (applyEvent st e)) \<and>
        Metrics.stability (metrics (applyEvent st e)) \<le> 1"
    using Cons.prems by (simp add: applyEvent_stability clamp_unit split: option.splits)
  then show ?case unfolding foldl_Cons by (rule Cons.IH)
qed

lemma tick_metrics_unit:
  "0 \<le> Metrics.coherence (metrics (tickSimulation s))"
  "Metrics.coherence (metrics (tickSimulation s)) \<le> 1"
  "0 \<le> Metrics.stability (metrics (tickSimulation s))"
  "Metrics.stability (metrics (tickSimulation s)) \<le> 1"
proof -
  have c: "0 \<le> Metrics.coherence (metrics (fst (tickMetrics s))) \<and>
           Metrics.coherence (metrics (fst (tickMetrics s))) \<le> 1"
    by (simp add: tickMetrics_coherence computeCoherence_def Let_def clamp_unit)
  have st: "0 \<le> Metrics.stability (metrics (fst (tickMetrics s))) \<and>
            Metrics.stability (metrics (fst (tickMetrics s))) \<le> 1"
    by (subst (1 2) tickMetrics_stability) (simp add: clamp_unit)
  show "0 \<le> Metrics.coherence (metrics (tickSimulation s))"
    "Metrics.coherence (metrics (tickSimulation s)) \<le> 1"
    using foldl_applyEvent_coherence_unit [OF c] by (simp_all add: tick_fields)
  show "0 \<le> Metrics.stability (metrics (tickSimulation s))"
    "Metrics.stability (metrics (tickSimulation s)) \<le> 1"
    using foldl_applyEvent_stability_unit [OF st] by (simp_all add: tick_fields)
qed

subsection \<open>The loops against the sums of the specification\<close>

lemma flowsLoop_sum:
  "flowsLoop orgs e n =
     \<lparr>ResourceFlows.energy = e + (\<Sum>org\<leftarrow>orgs. organelleOutput org),
      ResourceFlows.nutrients = n - 0.6 * (\<Sum>org\<leftarrow>orgs. organelleOutput org)\<rparr>"
  by (induction orgs arbitrary: e n) (simp_all add: Let_def organelleOutput_def algebra_simps)

lemma computeStrain_spec:
  "computeStrain state flows =
     strain state * 0.6 + nutrientDebt state flows * 0.4 + utilizationLoad state * 0.2"
  by (simp add: computeStrain_def Let_def nutrientDebt_def utilizationLoad_def foldl_add_map)

lemma nutrientDebt_allocations:
  "nutrientDebt (applyAllocations s acts) flows = nutrientDebt s flows"
  by (simp add: nutrientDebt_def applyAllocations_fields)

lemma computeCoherence_spec:
  "computeCoherence actions events = clamp (averageHarmony actions + eventBonus events) 0 1"
  by (simp add: computeCoherence_def Let_def averageHarmony_def eventBonus_def foldl_add_map
      foldl_add_sum_list comp_def)

subsection \<open>Allocations on one organelle\<close>

lemma applyAllocation_lookup:
  "map_of (organelles (applyAllocation s a)) k =
     (case map_of (organelles s) (organelle a) of
        None \<Rightarrow> map_of (organelles s) k
      | Some org \<Rightarrow>
          if k = organelle a
          then Some (org\<lparr>OrganelleState.utilization :=
                 clamp (OrganelleState.utilization org + PlayerAllocation.utilization a) 0 1\<rparr>)
          else map_of (organelles s) k)"
  by (simp add: applyAllocation_def update_conv' MIN_UTILIZATION_def MAX_UTILIZATION_def
      split: option.splits)

lemma applyAllocation_unknown:
  "map_of (organelles s) (organelle a) = None \<Longrightarrow> applyAllocation s a = s"
  by (simp add: applyAllocation_def)

lemma foldl_applyAllocation_unknown:
  "\<forall>a \<in> set as. map_of (organelles s) (organelle a) = None \<Longrightarrow>
   foldl applyAllocation s as = s"
  by (induction as) (simp_all add: applyAllocation_unknown)

lemma applyAllocations_unknown:
  "\<forall>action \<in> set actions.
     \<forall>a \<in> set (case allocations action of None \<Rightarrow> [] | Some as \<Rightarrow> as).
       map_of (organelles s) (organelle a) = None \<Longrightarrow>
   applyAllocations s actions = s"
  unfolding applyAllocations_def
  by (induction actions) (simp_all add: foldl_applyAllocation_unknown)

lemma two_allocations:
  assumes "map_of (organelles s) k = Some org" and "OrganelleState.utilization org = 0"
  shows "map_of (organelles (applyAllocation (applyAllocation s
            \<lparr>organelle = k, PlayerAllocation.utilization = da\<rparr>)
            \<lparr>organelle = k, PlayerAllocation.utilization = db\<rparr>)) k =
         Some (org\<lparr>OrganelleState.utilization := clamp (clamp da 0 1 + db) 0 1\<rparr>)"
  using assms by (simp add: applyAllocation_lookup)

lemma two_actions:
  assumes "map_of (organelles s) k = Some org" and "OrganelleState.utilization org = 0"
  shows "map_of (organelles (applyAllocations s [allocating p k da, allocating q k db])) k =
         Some (org\<lparr>OrganelleState.utilization := clamp (clamp da 0 1 + db) 0 1\<rparr>)"
  using two_allocations [OF assms] by (simp add: applyAllocations_def allocating_def)

subsection \<open>The festival\<close>

lemma festival_bonus:
  "0.7 < Metrics.coherence (metrics st) \<Longrightarrow> eventBonus (maybeSpawnEvents st) = 0.1"
  by (simp add: eventBonus_def maybeSpawnEvents_def)

lemma festival_applied:
  "0.7 < Metrics.coherence (metrics st) \<Longrightarrow>
   Metrics.coherence (metrics (foldl applyEvent st' (maybeSpawnEvents st))) =
     clamp (Metrics.coherence (metrics st') + 0.1) 0 1"
  by (simp add: maybeSpawnEvents_def applyEvent_coherence)

lemma no_festival_applied:
  "\<not> 0.7 < Metrics.coherence (metrics st) \<Longrightarrow>
   Metrics.coherence (metrics (foldl applyEvent st' (maybeSpawnEvents st))) =
     Metrics.coherence (metrics st')"
  by (simp add: maybeSpawnEvents_def applyEvent_coherence)

lemma no_festival_bonus:
  "\<not> 0.7 < Metrics.coherence (metrics st) \<Longrightarrow> eventBonus (maybeSpawnEvents st) = 0"
  by (simp add: eventBonus_def maybeSpawnEvents_def)

lemma tick_bonus_without_festival:
  "\<not> 0.7 < Metrics.coherence (metrics s) \<Longrightarrow>
   eventBonus (activeEvents (tickSimulation s)) = 0"
  unfolding tick_fields tickMetrics_events by (rule no_festival_bonus) simp

subsection \<open>The tier\<close>

lemma tick_tier:
  "tier (tickSimulation s) =
     (if 0.75 < Metrics.stability (metrics (tickSimulation s)) \<and>
         js_gt (warmth (metrics (tickSimulation s))) 0.5
      then tier s + 1 else tier s)"
  by (simp add: tick_fields)
     (simp add: tickSimulation_eq maybeProgressTier_def applyEvents_fields tickMetrics_fields)

subsection \<open>Resources after a tick\<close>

text \<open>
  \<^verbatim>\<open>consumeFlows\<close> leaves both resources at 0 or above. The events then add to
  them without a clamp: the repair adds 2 nutrients, the festival 1 energy, the anomaly
  takes 2 energy.
\<close>

lemma tick_resources_bounds:
  "0 \<le> Resources.nutrients (resources (tickSimulation s))"
  "- 2 \<le> Resources.energy (resources (tickSimulation s))"
  "strain s \<le> 1.5 \<Longrightarrow> 0 \<le> Resources.energy (resources (tickSimulation s))"
proof -
  let ?st3 = "s\<lparr>resources :=
            resources (consumeFlows (applyAllocations s (pendingActions s))
              (computeResourceFlows (applyAllocations s (pendingActions s))))\<rparr>"
  have e: "0 \<le> Resources.energy (resources (fst (tickMetrics s)))"
    and n: "0 \<le> Resources.nutrients (resources (fst (tickMetrics s)))"
    by (simp_all add: tickMetrics_fields consumeFlows_def Let_def)
  have en: "Resources.energy (resources (foldl applyEvent st' (maybeSpawnEvents st))) =
      Resources.energy (resources st')
      + (if 1.5 < strain st then - 2 else 0)
      + (if 0.7 < Metrics.coherence (metrics st) then 1 else 0)" for st st'
    by (simp add: maybeSpawnEvents_def applyEvent_energy)
  have nu: "Resources.nutrients (resources (foldl applyEvent st' (maybeSpawnEvents st))) =
      Resources.nutrients (resources st')
      + (if Resources.nutrients (resources st) < 1 then 2 else 0)" for st st'
    by (simp add: maybeSpawnEvents_def applyEvent_nutrients)
  show "0 \<le> Resources.nutrients (resources (tickSimulation s))"
    unfolding tick_fields tickMetrics_events nu using n by simp
  show "- 2 \<le> Resources.energy (resources (tickSimulation s))"
    unfolding tick_fields tickMetrics_events en using e by simp
  show "0 \<le> Resources.energy (resources (tickSimulation s))" if "strain s \<le> 1.5"
    unfolding tick_fields tickMetrics_events en using e that by simp
qed

subsection \<open>No progress without negative strain\<close>

text \<open>
  The nutrient flow is \<open>-0.6\<close> times the energy flow, so the cost is at least 0.6 times
  the gain as long as the strain is not negative. Then the quotient under the logarithm is
  at most \<open>5/3\<close>, the warmth stays below 0.5, and the tier does not move.
\<close>

lemma exp_lower: "5 / 3 \<le> exp (0.6 :: real)"
proof -
  have "(1.3 :: real) \<le> exp 0.3"
    using exp_ge_add_one_self [of "0.3 :: real"] by simp
  then have "(1.3 :: real) * 1.3 \<le> exp 0.3 * exp 0.3"
    by (intro mult_mono) simp_all
  also have "\<dots> = exp (0.6 :: real)"
    by (simp flip: exp_add)
  finally show ?thesis by simp
qed

lemma warmth_cap:
  assumes "0 \<le> strain'"
  shows "\<not> js_gt (calculateWarmth (max 0 e) (max 0 (0.6 * e) + strain' * 0.5)) 0.5"
proof -
  let ?g = "max 0 e + 0.0001" and ?c = "max 0 (0.6 * e) + strain' * 0.5 + 0.0001"
  have cpos: "0 < ?c" using assms by simp
  have gpos: "0 < ?g" by simp
  have "3 * ?g \<le> 5 * ?c" using assms by (simp add: max_def)
  then have "?g / ?c \<le> 5 / 3" using cpos by (simp add: field_simps)
  also have "\<dots> \<le> exp 0.6" by (rule exp_lower)
  finally have "?g / ?c \<le> exp 0.6" .
  moreover have "0 < ?g / ?c" using gpos cpos by simp
  ultimately have "ln (?g / ?c) \<le> ln (exp 0.6)"
    by (subst ln_le_cancel_iff) simp_all
  then have "ln (?g / ?c) \<le> 0.6" by simp
  then show ?thesis
    using cpos gpos by (simp add: calculateWarmth_def Let_def js_sub_def)
qed


lemma flows_nutrients:
  "ResourceFlows.nutrients (computeResourceFlows st) =
     - (0.6 * ResourceFlows.energy (computeResourceFlows st))"
  by (simp add: computeResourceFlows_def flowsLoop_sum)

lemma utilizationLoad_nonneg:
  "\<forall>org \<in> set (map snd (organelles st)).
      0 \<le> OrganelleState.utilization org \<and> OrganelleState.utilization org \<le> 1 \<Longrightarrow>
   0 \<le> utilizationLoad st"
  unfolding utilizationLoad_def by (rule sum_list_nonneg) auto

lemma tier_stalls:
  assumes "0 \<le> strain s"
    and "\<forall>org \<in> set (map snd (organelles s)).
           0 \<le> OrganelleState.utilization org \<and> OrganelleState.utilization org \<le> 1"
  shows "0 \<le> strain (tickSimulation s)"
    and "\<not> js_gt (warmth (metrics (tickSimulation s))) 0.5"
    and "tier (tickSimulation s) = tier s"
proof -
  let ?s1 = "applyAllocations s (pendingActions s)"
  let ?F = "computeResourceFlows ?s1"
  have load: "0 \<le> utilizationLoad ?s1"
    by (rule utilizationLoad_nonneg) (rule applyAllocations_bounded [OF assms(2)])
  have debt: "0 \<le> nutrientDebt ?s1 ?F" by (simp add: nutrientDebt_def)
  have new: "0 \<le> strain (fst (tickMetrics s))"
    unfolding tickMetrics_fields computeStrain_spec
    using assms(1) load debt by (simp add: applyAllocations_fields)
  show "0 \<le> strain (tickSimulation s)"
    using new by (simp add: tick_fields)
  have "warmth (metrics (tickSimulation s)) =
        calculateWarmth (max 0 (ResourceFlows.energy ?F))
          (max 0 (0.6 * ResourceFlows.energy ?F) + strain (fst (tickMetrics s)) * 0.5)"
    by (simp add: tick_fields foldl_applyEvent_fields tickMetrics_warmth computeGainCost_def
        Let_def flows_nutrients)
  then show w: "\<not> js_gt (warmth (metrics (tickSimulation s))) 0.5"
    using warmth_cap [OF new] by simp
  from w show "tier (tickSimulation s) = tier s"
    by (subst tick_tier) simp
qed

subsection \<open>The tick of \<open>progressState\<close>\<close>

lemma progressState_alloc:
  "applyAllocations progressState (pendingActions progressState) = progressState"
  by (simp add: progressState_def applyAllocations_def)

lemma progressState_flows:
  "computeResourceFlows progressState =
     \<lparr>ResourceFlows.energy = 1, ResourceFlows.nutrients = - 0.6\<rparr>"
  by (simp add: progressState_def computeResourceFlows_def)

lemma progressState_strain:
  "strain (fst (tickMetrics progressState)) = - 1"
  by (simp add: tickMetrics_fields progressState_alloc progressState_flows)
     (simp add: progressState_def computeStrain_def)

lemma progressState_events: "snd (tickMetrics progressState) = []"
  unfolding tickMetrics_events progressState_alloc progressState_flows
  by (simp add: progressState_def maybeSpawnEvents_def consumeFlows_def)

lemma progressState_warmth:
  "warmth (metrics (tickSimulation progressState)) = Finite (ln (10001 / 1001) - 0.1)"
  by (simp add: tick_fields progressState_events tickMetrics_warmth progressState_alloc
      progressState_flows progressState_strain)
     (simp add: computeGainCost_def calculateWarmth_def js_sub_def)

lemma progressState_stability:
  "Metrics.stability (metrics (tickSimulation progressState)) = 0.8"
  apply (simp add: tick_fields progressState_events)
  apply (subst tickMetrics_stability)
  apply (simp add: progressState_strain tickMetrics_coherence progressState_events)
  apply (simp add: computeCoherence_def progressState_def clamp_def)
  done

lemma ln_large: "0.6 < ln (10001 / 1001 :: real)"
proof -
  have "exp (0.6 :: real) \<le> exp 1" by simp
  also have "\<dots> \<le> 3" by (rule exp_le)
  also have "\<dots> < 10001 / 1001" by simp
  finally have "exp (0.6 :: real) < 10001 / 1001" .
  then have "exp (0.6 :: real) < exp (ln (10001 / 1001))" by simp
  then show ?thesis by (rule exp_less_cancel)
qed

subsection \<open>The tick of \<open>workingState\<close>\<close>

lemma workingState_alloc:
  "organelles (applyAllocations workingState (pendingActions workingState)) =
     [(''mitochondria'', \<lparr>capacity = 10, efficiency = 1, OrganelleState.utilization = 1\<rparr>)]"
  by (simp add: workingState_def applyAllocations_def applyAllocation_def clamp_def
      MIN_UTILIZATION_def MAX_UTILIZATION_def)

section \<open>The claims\<close>

text \<open>
  Claim C1 (non-negative resources after a tick). The claim says that after
  \<^verbatim>\<open>tickSimulation\<close> both \<^verbatim>\<open>resources.energy\<close> and \<^verbatim>\<open>resources.nutrients\<close> are
  at least 0, and that the anomaly's energy impact never leaves energy negative. On
  \<open>strainedState\<close> the code clamps energy to 0 in \<^verbatim>\<open>consumeFlows\<close>, spawns an anomaly
  and then subtracts 2 in \<^verbatim>\<open>applyEvents\<close> without a clamp: the tick ends with an
  energy of \<open>-2\<close>. Lemma \<open>tick_resources_bounds\<close> has what the code keeps for every state:
  nutrients of at least 0, energy of at least \<open>-2\<close>, and energy of at least 0 when no
  anomaly is spawned.
\<close>

theorem tick_leaves_energy_negative:
  "Resources.energy (resources (fst (tickMetrics strainedState))) = 0 \<and>
   map type (activeEvents (tickSimulation strainedState)) = [anomaly] \<and>
   Resources.energy (resources (tickSimulation strainedState)) = - 2 \<and>
   Resources.energy (resources (tickSimulation strainedState)) < 0"
  by (simp add: strainedState_consumed strainedState_types strainedState_energy)

text \<open>
  Claim C2 (the anomaly trigger). As stated, an anomaly is spawned exactly when the strain
  computed in this tick exceeds 1.5. The code calls \<^verbatim>\<open>maybeSpawnEvents\<close> before it
  stores the new strain, so the trigger reads the strain the state had on entry. On
  \<open>strainedState\<close> the stored strain is 2 and the new strain is 1.2: an anomaly is
  spawned although the new strain does not exceed 1.5.
\<close>

theorem anomaly_fresh_strain_counterexample:
  "anomaly \<in> set (map type (activeEvents (tickSimulation strainedState))) \<and>
   computeStrain (applyAllocations strainedState (collectPlayerActions strainedState))
     (computeResourceFlows
        (applyAllocations strainedState (collectPlayerActions strainedState))) = 1.2 \<and>
   strain (tickSimulation strainedState) = 1.2 \<and>
   \<not> 1.5 < strain (tickSimulation strainedState)"
  by (simp add: strainedState_types strainedState_strain)

text \<open>
  Claim C2, amended: for every state, \<^verbatim>\<open>tickSimulation\<close> spawns an anomaly event exactly
  when the strain stored in the state on entry (the previous tick's strain) exceeds 1.5.
\<close>

theorem anomaly_trigger_reads_stored_strain:
  "anomaly \<in> set (map type (activeEvents (tickSimulation s))) \<longleftrightarrow> 1.5 < strain s"
  unfolding tick_fields tickMetrics_events maybeSpawnEvents_types by simp

theorem anomaly_trigger_reads_stored_strain_witness:
  "1.5 < strain strainedState \<and>
   anomaly \<in> set (map type (activeEvents (tickSimulation strainedState)))"
  using anomaly_trigger_reads_stored_strain [of strainedState]
  by (simp add: strainedState_def)

text \<open>
  Claim C3 (bounds are preserved). If in the input state every organelle's utilization,
  \<^verbatim>\<open>metrics.coherence\<close> and \<^verbatim>\<open>metrics.stability\<close> lie between 0 and 1, then they do
  so after \<^verbatim>\<open>tickSimulation\<close>.
\<close>

theorem tick_preserves_unit_bounds:
  assumes "\<forall>org \<in> set (map snd (organelles s)).
             0 \<le> OrganelleState.utilization org \<and> OrganelleState.utilization org \<le> 1"
    and "0 \<le> Metrics.coherence (metrics s) \<and> Metrics.coherence (metrics s) \<le> 1"
    and "0 \<le> Metrics.stability (metrics s) \<and> Metrics.stability (metrics s) \<le> 1"
  shows "(\<forall>org \<in> set (map snd (organelles (tickSimulation s))).
             0 \<le> OrganelleState.utilization org \<and> OrganelleState.utilization org \<le> 1) \<and>
         0 \<le> Metrics.coherence (metrics (tickSimulation s)) \<and>
         Metrics.coherence (metrics (tickSimulation s)) \<le> 1 \<and>
         0 \<le> Metrics.stability (metrics (tickSimulation s)) \<and>
         Metrics.stability (metrics (tickSimulation s)) \<le> 1"
proof -
  have "\<forall>org \<in> set (map snd (organelles (tickSimulation s))).
          0 \<le> OrganelleState.utilization org \<and> OrganelleState.utilization org \<le> 1"
    unfolding tick_fields by (rule applyAllocations_bounded [OF assms(1)])
  then show ?thesis by (simp add: tick_metrics_unit)
qed

theorem tick_preserves_unit_bounds_witness:
  "list_all (\<lambda>org. 0 \<le> OrganelleState.utilization org \<and> OrganelleState.utilization org \<le> 1)
     (map snd (organelles workingState)) \<and>
   0 \<le> Metrics.coherence (metrics workingState) \<and>
   Metrics.coherence (metrics workingState) \<le> 1 \<and>
   0 \<le> Metrics.stability (metrics workingState) \<and>
   Metrics.stability (metrics workingState) \<le> 1 \<and>
   list_all (\<lambda>org. 0 \<le> OrganelleState.utilization org \<and> OrganelleState.utilization org \<le> 1)
     (map snd (organelles (tickSimulation workingState))) \<and>
   0 \<le> Metrics.coherence (metrics (tickSimulation workingState)) \<and>
   Metrics.coherence (metrics (tickSimulation workingState)) \<le> 1 \<and>
   0 \<le> Metrics.stability (metrics (tickSimulation workingState)) \<and>
   Metrics.stability (metrics (tickSimulation workingState)) \<le> 1"
proof -
  have h1: "\<forall>org \<in> set (map snd (organelles workingState)).
      0 \<le> OrganelleState.utilization org \<and> OrganelleState.utilization org \<le> 1"
    by (simp add: workingState_def)
  have h2: "0 \<le> Metrics.coherence (metrics workingState) \<and>
      Metrics.coherence (metrics workingState) \<le> 1"
    by (simp add: workingState_def)
  have h3: "0 \<le> Metrics.stability (metrics workingState) \<and>
      Metrics.stability (metrics workingState) \<le> 1"
    by (simp add: workingState_def)
  from tick_preserves_unit_bounds [OF h1 h2 h3] h1 h2 h3 show ?thesis
    unfolding list_all_iff by blast
qed

text \<open>
  Claim C4 (strain). The strain after a tick is the stored strain times 0.6, plus 0.4 times
  the nutrient debt \<open>max(0, -(resources.nutrients + flows.nutrients))\<close> taken on the
  resources as they were before consumption, plus 0.2 times the sum of the utilizations
  (as the allocations of this tick left them); when debt and load are 0 it is the stored
  strain times 0.6.
\<close>

theorem tick_strain_formula:
  "strain (tickSimulation s) =
     strain s * 0.6
     + nutrientDebt s (computeResourceFlows (applyAllocations s (pendingActions s))) * 0.4
     + utilizationLoad (applyAllocations s (pendingActions s)) * 0.2 \<and>
   (nutrientDebt s (computeResourceFlows (applyAllocations s (pendingActions s))) = 0 \<and>
    utilizationLoad (applyAllocations s (pendingActions s)) = 0 \<longrightarrow>
      strain (tickSimulation s) = strain s * 0.6)"
  by (simp add: tick_fields tickMetrics_fields computeStrain_spec nutrientDebt_allocations
      applyAllocations_fields)

theorem tick_strain_formula_witness:
  "nutrientDebt strainedState
     (computeResourceFlows (applyAllocations strainedState (pendingActions strainedState))) = 0 \<and>
   utilizationLoad (applyAllocations strainedState (pendingActions strainedState)) = 0 \<and>
   strain (tickSimulation strainedState) = strain strainedState * 0.6 \<and>
   strain (tickSimulation strainedState) = 1.2 \<and>
   strain (tickSimulation workingState) = 0.2"
proof -
  have a: "applyAllocations strainedState (pendingActions strainedState) = strainedState"
    by (simp add: strainedState_def applyAllocations_def)
  have d: "nutrientDebt strainedState (computeResourceFlows strainedState) = 0"
    by (simp add: strainedState_def nutrientDebt_def computeResourceFlows_def)
  have l: "utilizationLoad strainedState = 0"
    by (simp add: strainedState_def utilizationLoad_def)
  have s: "strain strainedState = 2" by (simp add: strainedState_def)
  have wl: "utilizationLoad (applyAllocations workingState (pendingActions workingState)) = 1"
    by (simp add: utilizationLoad_def workingState_alloc)
  have wd: "nutrientDebt workingState
      (computeResourceFlows (applyAllocations workingState (pendingActions workingState))) = 0"
    by (simp add: nutrientDebt_def computeResourceFlows_def workingState_alloc)
       (simp add: workingState_def)
  have ws: "strain workingState = 0" by (simp add: workingState_def)
  show ?thesis
    using tick_strain_formula [of strainedState] tick_strain_formula [of workingState]
    by (simp add: a d l s wl wd ws)
qed

text \<open>
  Claim C5 (warmth). For gain and cost that are not negative, \<^verbatim>\<open>calculateWarmth\<close>
  returns \<open>ln((gain + 1e-4) / (cost + 1e-4)) - 0.1\<close>, a finite number; at gain 0 and cost 0
  that is \<open>-0.1\<close>.
\<close>

theorem calculateWarmth_formula:
  "(0 \<le> gain \<and> 0 \<le> cost \<longrightarrow>
      calculateWarmth gain cost = Finite (ln ((gain + 0.0001) / (cost + 0.0001)) - 0.1)) \<and>
   calculateWarmth 0 0 = Finite (- 0.1)"
  by (simp add: calculateWarmth_def Let_def js_sub_def)

theorem calculateWarmth_formula_witness:
  "(0 :: real) \<le> 10 \<and> (0 :: real) \<le> 0 \<and>
   calculateWarmth 10 0 = Finite (ln (100001) - 0.1)"
  using calculateWarmth_formula [of 10 0] by simp

text \<open>
  Claim C6 (tier). The tier grows by exactly 1 in a tick when, after the events have been
  applied, the stability exceeds 0.75 and the warmth exceeds 0.5, and is unchanged
  otherwise; a stability of exactly 0.75 leaves it unchanged; no tick lowers it.
\<close>

theorem tier_progression:
  "tier (tickSimulation s) =
     (if 0.75 < Metrics.stability (metrics (tickSimulation s)) \<and>
         js_gt (warmth (metrics (tickSimulation s))) 0.5
      then tier s + 1 else tier s) \<and>
   metrics (tickSimulation s) =
     metrics (applyEvents (fst (tickMetrics s)) (snd (tickMetrics s))) \<and>
   tier s \<le> tier (tickSimulation s) \<and>
   (Metrics.stability (metrics st) = 0.8 \<and> warmth (metrics st) = Finite 0.6 \<longrightarrow>
      maybeProgressTier st = st\<lparr>tier := tier st + 1\<rparr>) \<and>
   (Metrics.stability (metrics st') = 0.75 \<longrightarrow> maybeProgressTier st' = st')"
proof -
  have "tier s \<le> tier (tickSimulation s)"
    by (subst tick_tier) simp
  then show ?thesis
    using tick_tier [of s]
    by (simp add: tick_fields applyEvents_fields maybeProgressTier_def)
qed

theorem tier_progression_witness:
  "Metrics.stability (metrics (tickSimulation progressState)) = 0.8 \<and>
   warmth (metrics (tickSimulation progressState)) = Finite (ln (10001 / 1001) - 0.1) \<and>
   tier (tickSimulation progressState) = tier progressState + 1 \<and>
   tier (tickSimulation progressState) = 4 \<and>
   Metrics.stability (metrics (progressState\<lparr>metrics :=
      \<lparr>warmth = Finite 0.6, Metrics.coherence = 0, Metrics.stability = 0.8\<rparr>\<rparr>)) = 0.8 \<and>
   maybeProgressTier (progressState\<lparr>metrics :=
      \<lparr>warmth = Finite 0.6, Metrics.coherence = 0, Metrics.stability = 0.8\<rparr>\<rparr>) =
     progressState\<lparr>metrics :=
      \<lparr>warmth = Finite 0.6, Metrics.coherence = 0, Metrics.stability = 0.8\<rparr>, tier := 4\<rparr> \<and>
   Metrics.stability (metrics (progressState\<lparr>metrics :=
      \<lparr>warmth = Finite 0.6, Metrics.coherence = 0, Metrics.stability = 0.75\<rparr>\<rparr>)) = 0.75 \<and>
   maybeProgressTier (progressState\<lparr>metrics :=
      \<lparr>warmth = Finite 0.6, Metrics.coherence = 0, Metrics.stability = 0.75\<rparr>\<rparr>) =
     progressState\<lparr>metrics :=
      \<lparr>warmth = Finite 0.6, Metrics.coherence = 0, Metrics.stability = 0.75\<rparr>\<rparr>"
proof -
  note T = tier_progression [of progressState
      "progressState\<lparr>metrics :=
         \<lparr>warmth = Finite 0.6, Metrics.coherence = 0, Metrics.stability = 0.8\<rparr>\<rparr>"
      "progressState\<lparr>metrics :=
         \<lparr>warmth = Finite 0.6, Metrics.coherence = 0, Metrics.stability = 0.75\<rparr>\<rparr>"]
  have t: "tier progressState = 3" by (simp add: progressState_def)
  have up: "tier (tickSimulation progressState) = tier progressState + 1"
    using T [THEN conjunct1] ln_large
    by (simp add: progressState_stability progressState_warmth)
  have scenario: "maybeProgressTier (progressState\<lparr>metrics :=
      \<lparr>warmth = Finite 0.6, Metrics.coherence = 0, Metrics.stability = 0.8\<rparr>\<rparr>) =
     progressState\<lparr>metrics :=
      \<lparr>warmth = Finite 0.6, Metrics.coherence = 0, Metrics.stability = 0.8\<rparr>, tier := 4\<rparr>"
    using T [THEN conjunct2, THEN conjunct2, THEN conjunct2, THEN conjunct1] by (simp add: t)
  have threshold: "maybeProgressTier (progressState\<lparr>metrics :=
      \<lparr>warmth = Finite 0.6, Metrics.coherence = 0, Metrics.stability = 0.75\<rparr>\<rparr>) =
     progressState\<lparr>metrics :=
      \<lparr>warmth = Finite 0.6, Metrics.coherence = 0, Metrics.stability = 0.75\<rparr>\<rparr>"
    using T [THEN conjunct2, THEN conjunct2, THEN conjunct2, THEN conjunct2] by simp
  show ?thesis
    using up scenario threshold
    by (simp add: progressState_stability progressState_warmth t)
qed

text \<open>
  Claim C7 (resource flows). \<^verbatim>\<open>computeResourceFlows\<close> returns as energy the sum of
  \<open>capacity * efficiency * utilization\<close> over the organelles and as nutrients \<open>-0.6\<close>
  times that sum. The function only reads the state: it is a function from the state to
  the flows, and the tick goes on with the state it was given.
\<close>

theorem computeResourceFlows_sums:
  "ResourceFlows.energy (computeResourceFlows state) =
     (\<Sum>org\<leftarrow>map snd (organelles state).
        capacity org * efficiency org * OrganelleState.utilization org) \<and>
   ResourceFlows.nutrients (computeResourceFlows state) =
     - 0.6 * (\<Sum>org\<leftarrow>map snd (organelles state).
        capacity org * efficiency org * OrganelleState.utilization org)"
  by (simp add: computeResourceFlows_def flowsLoop_sum organelleOutput_def)

text \<open>
  Claim C8 (coherence). The coherence that \<^verbatim>\<open>computeCoherence\<close> returns, and that the
  tick stores before it applies the events, is \<open>clamp(averageHarmony + eventBonus, 0, 1)\<close>:
  the mean harmony of the actions of this tick (an absent harmony counts 0, no action
  gives 0) plus the sum of the coherence impacts of the events spawned in this tick. When
  no festival is spawned, that is also the coherence the tick returns.
\<close>

theorem coherence_formula:
  "computeCoherence actions events =
     clamp (averageHarmony actions + eventBonus events) 0 1 \<and>
   Metrics.coherence (metrics (fst (tickMetrics s))) =
     clamp (averageHarmony (pendingActions s) + eventBonus (activeEvents (tickSimulation s))) 0 1 \<and>
   (\<not> 0.7 < Metrics.coherence (metrics s) \<longrightarrow>
      Metrics.coherence (metrics (tickSimulation s)) =
        clamp (averageHarmony (pendingActions s)
               + eventBonus (activeEvents (tickSimulation s))) 0 1)"
proof -
  let ?st3 = "s\<lparr>resources :=
            resources (consumeFlows (applyAllocations s (pendingActions s))
              (computeResourceFlows (applyAllocations s (pendingActions s))))\<rparr>"
  have stored: "Metrics.coherence (metrics (fst (tickMetrics s))) =
     clamp (averageHarmony (pendingActions s) + eventBonus (activeEvents (tickSimulation s))) 0 1"
    by (simp add: computeCoherence_spec tickMetrics_coherence tick_fields)
  have final: "Metrics.coherence (metrics (tickSimulation s)) =
      Metrics.coherence (metrics (fst (tickMetrics s)))"
    if "\<not> 0.7 < Metrics.coherence (metrics s)"
  proof -
    from that have cool: "\<not> 0.7 < Metrics.coherence (metrics ?st3)" by simp
    show ?thesis
      unfolding tick_fields(5)
      by (subst tickMetrics_events) (rule no_festival_applied [OF cool])
  qed
  show ?thesis
    using stored final by (simp add: computeCoherence_spec)
qed

theorem coherence_formula_witness:
  "\<not> 0.7 < Metrics.coherence (metrics harmonyState) \<and>
   averageHarmony (pendingActions harmonyState) = 0.2 \<and>
   eventBonus (activeEvents (tickSimulation harmonyState)) = 0 \<and>
   Metrics.coherence (metrics (tickSimulation harmonyState)) = 0.2"
proof -
  have h: "\<not> 0.7 < Metrics.coherence (metrics harmonyState)"
    by (simp add: harmonyState_def idleState_def)
  have avg: "averageHarmony (pendingActions harmonyState) = 0.2"
    by (simp add: harmonyState_def averageHarmony_def)
  have bonus: "eventBonus (activeEvents (tickSimulation harmonyState)) = 0"
    by (rule tick_bonus_without_festival [OF h])
  show ?thesis
    using coherence_formula [of "[]" "[]" harmonyState] h
    by (simp add: avg bonus clamp_def)
qed

text \<open>
  Claim C9 (allocations). On an organelle whose utilization is 0, two allocations of 0.3
  give 0.6 and two allocations of 0.7 give 1, whichever of the two is applied first; and
  when no allocation names a key of \<^verbatim>\<open>state.organelles\<close>, the state is unchanged.
\<close>

theorem allocations_accumulate:
  "(map_of (organelles s) k = Some org \<and> OrganelleState.utilization org = 0 \<longrightarrow>
      map_of (organelles (applyAllocations s [allocating p1 k 0.3, allocating p2 k 0.3])) k =
        Some (org\<lparr>OrganelleState.utilization := 0.6\<rparr>) \<and>
      map_of (organelles (applyAllocations s [allocating p2 k 0.3, allocating p1 k 0.3])) k =
        Some (org\<lparr>OrganelleState.utilization := 0.6\<rparr>) \<and>
      map_of (organelles (applyAllocations s [allocating p1 k 0.7, allocating p2 k 0.7])) k =
        Some (org\<lparr>OrganelleState.utilization := 1\<rparr>) \<and>
      map_of (organelles (applyAllocations s [allocating p2 k 0.7, allocating p1 k 0.7])) k =
        Some (org\<lparr>OrganelleState.utilization := 1\<rparr>)) \<and>
   ((\<forall>action \<in> set actions.
       \<forall>a \<in> set (case allocations action of None \<Rightarrow> [] | Some as \<Rightarrow> as).
         map_of (organelles s) (organelle a) = None) \<longrightarrow>
      applyAllocations s actions = s)"
proof -
  have v3: "clamp (clamp 0.3 0 1 + 0.3) 0 1 = 0.6" by (simp add: clamp_def)
  have v7: "clamp (clamp 0.7 0 1 + 0.7) 0 1 = 1" by (simp add: clamp_def)
  show ?thesis
    using two_actions [where da = "0.3" and db = "0.3" and s = s and k = k and org = org]
      two_actions [where da = "0.7" and db = "0.7" and s = s and k = k and org = org]
      applyAllocations_unknown [of actions s]
    by (simp add: v3 v7)
qed

theorem allocations_accumulate_witness:
  "map_of (organelles idleState) ''mitochondria'' = Some idleOrganelle \<and>
   OrganelleState.utilization idleOrganelle = 0 \<and>
   map_of (organelles (applyAllocations idleState
       [allocating ''p1'' ''mitochondria'' 0.3, allocating ''p2'' ''mitochondria'' 0.3]))
     ''mitochondria'' = Some (idleOrganelle\<lparr>OrganelleState.utilization := 0.6\<rparr>) \<and>
   map_of (organelles (applyAllocations idleState
       [allocating ''p1'' ''mitochondria'' 0.7, allocating ''p2'' ''mitochondria'' 0.7]))
     ''mitochondria'' = Some (idleOrganelle\<lparr>OrganelleState.utilization := 1\<rparr>) \<and>
   map_of (organelles idleState) ''golgi'' = None \<and>
   applyAllocations idleState [allocating ''p1'' ''golgi'' 0.3] = idleState"
proof -
  have h1: "map_of (organelles idleState) ''mitochondria'' = Some idleOrganelle"
    by (simp add: idleState_def)
  have h2: "OrganelleState.utilization idleOrganelle = 0"
    by (simp add: idleOrganelle_def)
  have h3: "map_of (organelles idleState) ''golgi'' = None"
    by (simp add: idleState_def)
  have h4: "\<forall>action \<in> set [allocating ''p1'' ''golgi'' 0.3].
       \<forall>a \<in> set (case allocations action of None \<Rightarrow> [] | Some as \<Rightarrow> as).
         map_of (organelles idleState) (organelle a) = None"
    by (simp add: allocating_def h3)
  note T = allocations_accumulate [of idleState "''mitochondria''" idleOrganelle
      "''p1''" "''p2''" "[allocating ''p1'' ''golgi'' 0.3]"]
  from T h1 h2 h3 h4 show ?thesis by blast
qed

text \<open>
  Claim C10 (the festival counts twice). When a festival is spawned in a tick, its
  coherence impact 0.1 enters \<^verbatim>\<open>metrics.coherence\<close> as the event bonus of
  \<^verbatim>\<open>computeCoherence\<close>, and \<^verbatim>\<open>applyEvents\<close> adds it once more, with a clamp; where no
  clamp bites, the coherence after the tick is the mean harmony plus 0.2.
\<close>

theorem festival_coherence_twice:
  "0.7 < Metrics.coherence (metrics s) \<longrightarrow>
     festival \<in> set (map type (activeEvents (tickSimulation s))) \<and>
     Metrics.coherence (metrics (fst (tickMetrics s))) =
       clamp (averageHarmony (pendingActions s) + 0.1) 0 1 \<and>
     Metrics.coherence (metrics (tickSimulation s)) =
       clamp (Metrics.coherence (metrics (fst (tickMetrics s))) + 0.1) 0 1 \<and>
     (0 \<le> averageHarmony (pendingActions s) \<and> averageHarmony (pendingActions s) + 0.2 \<le> 1 \<longrightarrow>
        Metrics.coherence (metrics (tickSimulation s)) = averageHarmony (pendingActions s) + 0.2)"
proof
  assume hot: "0.7 < Metrics.coherence (metrics s)"
  let ?st3 = "s\<lparr>resources :=
            resources (consumeFlows (applyAllocations s (pendingActions s))
              (computeResourceFlows (applyAllocations s (pendingActions s))))\<rparr>"
  have hot3: "0.7 < Metrics.coherence (metrics ?st3)" using hot by simp
  have fest: "festival \<in> set (map type (activeEvents (tickSimulation s)))"
    unfolding tick_fields tickMetrics_events maybeSpawnEvents_types using hot by simp
  have first: "Metrics.coherence (metrics (fst (tickMetrics s))) =
       clamp (averageHarmony (pendingActions s) + 0.1) 0 1"
    unfolding tickMetrics_coherence computeCoherence_spec tickMetrics_events
    by (simp add: festival_bonus [OF hot3])
  have second: "Metrics.coherence (metrics (tickSimulation s)) =
       clamp (Metrics.coherence (metrics (fst (tickMetrics s))) + 0.1) 0 1"
    unfolding tick_fields(5)
    by (subst tickMetrics_events) (rule festival_applied [OF hot3])
  have total: "Metrics.coherence (metrics (tickSimulation s)) =
       averageHarmony (pendingActions s) + 0.2"
    if "0 \<le> averageHarmony (pendingActions s) \<and> averageHarmony (pendingActions s) + 0.2 \<le> 1"
    unfolding second first using that by (simp add: clamp_def)
  show "festival \<in> set (map type (activeEvents (tickSimulation s))) \<and>
     Metrics.coherence (metrics (fst (tickMetrics s))) =
       clamp (averageHarmony (pendingActions s) + 0.1) 0 1 \<and>
     Metrics.coherence (metrics (tickSimulation s)) =
       clamp (Metrics.coherence (metrics (fst (tickMetrics s))) + 0.1) 0 1 \<and>
     (0 \<le> averageHarmony (pendingActions s) \<and> averageHarmony (pendingActions s) + 0.2 \<le> 1 \<longrightarrow>
        Metrics.coherence (metrics (tickSimulation s)) = averageHarmony (pendingActions s) + 0.2)"
    using fest first second total by blast
qed

theorem festival_coherence_twice_witness:
  "0.7 < Metrics.coherence (metrics workingState) \<and>
   averageHarmony (pendingActions workingState) = 0.5 \<and>
   festival \<in> set (map type (activeEvents (tickSimulation workingState))) \<and>
   Metrics.coherence (metrics (fst (tickMetrics workingState))) = 0.6 \<and>
   Metrics.coherence (metrics (tickSimulation workingState)) = 0.7"
proof -
  have h: "0.7 < Metrics.coherence (metrics workingState)"
    by (simp add: workingState_def)
  have avg: "averageHarmony (pendingActions workingState) = 0.5"
    by (simp add: workingState_def averageHarmony_def)
  note T = festival_coherence_twice [of workingState, rule_format, OF h]
  have c1: "Metrics.coherence (metrics (fst (tickMetrics workingState))) = 0.6"
    using T [THEN conjunct2, THEN conjunct1] by (simp add: avg clamp_def)
  have c2: "Metrics.coherence (metrics (tickSimulation workingState)) = 0.7"
    using T [THEN conjunct2, THEN conjunct2, THEN conjunct2] by (simp add: avg)
  show ?thesis using h avg T [THEN conjunct1] c1 c2 by simp
qed

end
